theory Spec2Isabelle
  imports Main
begin

section \<open>Go values, types and the part of package reflect the container uses\<close>

text \<open>
  The container (container.go) keys two maps by \<^verbatim>\<open>reflect.Type\<close> and decides
  everything from the dynamic type of the \<^verbatim>\<open>any\<close> it is handed. The model
  therefore starts with Go's types, their kinds, and interface values that carry
  their dynamic type.
\<close>

type_synonym addr = nat

text \<open>
  The container tells \<^verbatim>\<open>reflect.Ptr\<close> and \<^verbatim>\<open>reflect.Func\<close> from every other
  kind and looks no further, so the four other kinds here stand for all the kinds that
  are neither.
\<close>

datatype kind = BoolKind | IntKind | StringKind | StructKind | Ptr | Func

datatype gotype =
    TBool
  | TInt
  | TString
  | TStruct string
  | TPtr gotype
  | TFunc "gotype list" "gotype list"

text \<open>\<^verbatim>\<open>Type.Kind()\<close>.\<close>

fun Kind :: "gotype \<Rightarrow> kind" where
  "Kind TBool = BoolKind"
| "Kind TInt = IntKind"
| "Kind TString = StringKind"
| "Kind (TStruct n) = StructKind"
| "Kind (TPtr t) = Ptr"
| "Kind (TFunc ins outs) = Func"

text \<open>
  \<^verbatim>\<open>Type.NumIn()\<close>, \<^verbatim>\<open>Type.NumOut()\<close>, \<^verbatim>\<open>Type.Out(i)\<close> and
  \<^verbatim>\<open>Type.Elem()\<close>. reflect panics when the first three are called on a type that is
  not a function type (or with an index out of range) and when the last is called on a
  type without an element type; the container calls them only behind the matching
  \<^verbatim>\<open>Kind()\<close> and \<^verbatim>\<open>NumOut()\<close> checks, so the last equation of each is never
  reached from the container.
\<close>

fun NumIn :: "gotype \<Rightarrow> nat" where
  "NumIn (TFunc ins outs) = length ins"
| "NumIn t = 0"

fun NumOut :: "gotype \<Rightarrow> nat" where
  "NumOut (TFunc ins outs) = length outs"
| "NumOut t = 0"

fun Out :: "gotype \<Rightarrow> nat \<Rightarrow> gotype" where
  "Out (TFunc ins outs) i = outs ! i"
| "Out t i = t"

fun Elem :: "gotype \<Rightarrow> gotype" where
  "Elem (TPtr t) = t"
| "Elem t = t"

text \<open>
  Data that a variable can hold. A pointer carries its element type and either an
  address or nothing (the nil pointer); two pointers are the same reference iff they
  are equal.
\<close>

datatype data =
    DBool bool
  | DInt int
  | DString string
  | DStruct string "(string \<times> data) list"
  | DPtr gotype "addr option"

fun type_of_data :: "data \<Rightarrow> gotype" where
  "type_of_data (DBool b) = TBool"
| "type_of_data (DInt i) = TInt"
| "type_of_data (DString s) = TString"
| "type_of_data (DStruct n fs) = TStruct n"
| "type_of_data (DPtr t p) = TPtr t"

text \<open>
  The memory of the calling program: the variables behind the pointers, and the next
  free address for the allocations of the caller's own code.
\<close>

record memory =
  cells :: "addr \<rightharpoonup> data"
  next_addr :: addr

text \<open>The five error values of container.go.\<close>

datatype error =
    ErrServiceNotFound
  | ErrFactoryMustBeAFunction
  | ErrFactoryMustReturnOneValue
  | ErrFactoryMustTakeNoArguments
  | ErrOutputMustBeAPointer

text \<open>
  Panics. \<open>NilTypeKind\<close>: \<^verbatim>\<open>Kind()\<close> called on the nil \<^verbatim>\<open>reflect.Type\<close> that
  \<^verbatim>\<open>reflect.TypeOf(nil)\<close> returns (a nil dereference). \<open>ZeroValueType\<close>:
  \<^verbatim>\<open>Type()\<close> called on the zero \<^verbatim>\<open>reflect.Value\<close> that \<^verbatim>\<open>reflect.ValueOf(nil)\<close>
  returns. \<open>ElemOfNonPointer\<close>, \<open>ZeroValueSet\<close>, \<open>NotAssignable\<close>: the panics of
  \<^verbatim>\<open>Value.Elem\<close> and \<^verbatim>\<open>Value.Set\<close>. \<open>CallOfNonFunction\<close>: \<^verbatim>\<open>Value.Call\<close> on
  something that is no function. \<open>PanicError e\<close>: \<^verbatim>\<open>panic(err)\<close> in MustGet.
  \<open>CallerPanic\<close>: a panic raised inside a factory, which is the caller's code.
\<close>

datatype panic =
    NilTypeKind
  | ZeroValueType
  | ElemOfNonPointer
  | ZeroValueSet
  | NotAssignable
  | CallOfNonFunction
  | PanicError error
  | CallerPanic

datatype 'a outcome = Panic panic | Return 'a

text \<open>
  An interface value (\<^verbatim>\<open>any\<close>): nil, data with its dynamic type, or a function
  value with its parameter types, its result types and its body. The body is what
  calling the function with no argument does to the caller's memory, and the pointer
  it returns; the container runs it only for a function of type \<^verbatim>\<open>func() *T\<close>. A
  body sees the memory only: the spec excludes factories that consume the registry
  (section 1, non-goals), so a body is not handed the container.
\<close>

datatype any =
    Nil
  | Data data
  | Fn "gotype list" "gotype list" "memory \<Rightarrow> addr option outcome \<times> memory"

text \<open>\<^verbatim>\<open>reflect.TypeOf\<close>: none for the nil interface.\<close>

fun TypeOf :: "any \<Rightarrow> gotype option" where
  "TypeOf Nil = None"
| "TypeOf (Data d) = Some (type_of_data d)"
| "TypeOf (Fn ins outs body) = Some (TFunc ins outs)"

text \<open>
  \<^verbatim>\<open>factoryValue.Call(nil)\<close> and \<^verbatim>\<open>[0].Interface()\<close>: the call runs the body;
  the result is a \<^verbatim>\<open>reflect.Value\<close> of the declared result type \<open>typ\<close>, and
  \<^verbatim>\<open>Interface()\<close> packs it with that type.
\<close>

fun Call :: "any \<Rightarrow> memory \<Rightarrow> addr option outcome \<times> memory" where
  "Call (Fn ins outs body) m = body m"
| "Call v m = (Panic CallOfNonFunction, m)"

definition Interface :: "gotype \<Rightarrow> addr option \<Rightarrow> any" where
  "Interface typ p = Data (DPtr (Elem typ) p)"

section \<open>The container (container.go)\<close>

text \<open>
  \<^verbatim>\<open>type Container struct { factories map[typeof]func() any; providers map[typeof]any; mu sync.RWMutex }\<close>.
  The model is sequential, so the lock is left out.
\<close>

record Container =
  factories :: "gotype \<rightharpoonup> (memory \<Rightarrow> any outcome \<times> memory)"
  providers :: "gotype \<rightharpoonup> any"

text \<open>
  What an operation runs in: the caller's memory, and for each type identity the number
  of times \<open>Get\<close> has invoked the factory stored under it. The counter is
  instrumentation (no factory can read or write it); it makes "the factory is invoked"
  a statement about the model.
\<close>

record world =
  mem :: memory
  calls :: "gotype \<Rightarrow> nat"

definition New :: Container where
  "New = \<lparr>factories = Map.empty, providers = Map.empty\<rparr>"

text \<open>
  The closure \<^verbatim>\<open>func() any { return factoryValue.Call(nil)[0].Interface() }\<close> that
  RegisterFactory stores.
\<close>

definition wrapper :: "any \<Rightarrow> gotype \<Rightarrow> memory \<Rightarrow> any outcome \<times> memory" where
  "wrapper factoryValue typ m =
     (case Call factoryValue m of
        (Panic p, m') \<Rightarrow> (Panic p, m')
      | (Return r, m') \<Rightarrow> (Return (Interface typ r), m'))"

definition RegisterFactory :: "Container \<Rightarrow> any \<Rightarrow> error option outcome \<times> Container" where
  "RegisterFactory c factory =
     (case TypeOf factory of
        None \<Rightarrow> (Panic ZeroValueType, c)
      | Some factoryType \<Rightarrow>
          if Kind factoryType \<noteq> Func then (Return (Some ErrFactoryMustBeAFunction), c)
          else if NumIn factoryType \<noteq> 0 then (Return (Some ErrFactoryMustTakeNoArguments), c)
          else if NumOut factoryType \<noteq> 1 then (Return (Some ErrFactoryMustReturnOneValue), c)
          else
            let typeof = Out factoryType 0 in
            if Kind typeof \<noteq> Ptr then (Return (Some ErrOutputMustBeAPointer), c)
            else (Return None,
                  c\<lparr>factories := (factories c)(typeof \<mapsto> wrapper factory typeof)\<rparr>))"

definition Register :: "Container \<Rightarrow> any \<Rightarrow> error option outcome \<times> Container" where
  "Register c service =
     (case TypeOf service of
        None \<Rightarrow> (Panic NilTypeKind, c)
      | Some typeof \<Rightarrow>
          if Kind typeof \<noteq> Ptr then (Return (Some ErrOutputMustBeAPointer), c)
          else (Return None, c\<lparr>providers := (providers c)(typeof \<mapsto> service)\<rparr>))"

text \<open>
  \<^verbatim>\<open>func (c *Container) Get(out any) (any, error)\<close>. The two \<^verbatim>\<open>if !ok\<close> blocks are
  one branch here: the factory is looked up and run, and its result is stored.
\<close>

definition Get ::
  "Container \<Rightarrow> any \<Rightarrow> world \<Rightarrow> (any \<times> error option) outcome \<times> Container \<times> world" where
  "Get c out w =
     (case TypeOf out of
        None \<Rightarrow> (Panic NilTypeKind, c, w)
      | Some typeof \<Rightarrow>
          if Kind typeof \<noteq> Ptr then (Return (Nil, Some ErrOutputMustBeAPointer), c, w)
          else
            (case providers c typeof of
               Some service \<Rightarrow> (Return (service, None), c, w)
             | None \<Rightarrow>
                 (case factories c typeof of
                    None \<Rightarrow> (Return (Nil, Some ErrServiceNotFound), c, w)
                  | Some factory \<Rightarrow>
                      (case factory (mem w) of
                         (Panic p, m') \<Rightarrow>
                           (Panic p, c,
                            \<lparr>mem = m', calls = (calls w)(typeof := Suc (calls w typeof))\<rparr>)
                       | (Return service, m') \<Rightarrow>
                           (Return (service, None),
                            c\<lparr>providers := (providers c)(typeof \<mapsto> service)\<rparr>,
                            \<lparr>mem = m', calls = (calls w)(typeof := Suc (calls w typeof))\<rparr>)))))"

text \<open>
  A \<^verbatim>\<open>reflect.Value\<close> as GetValue uses it: the zero Value, or the variable of type
  \<open>t\<close> at an address, which is what \<^verbatim>\<open>Elem()\<close> of a non-nil pointer is.
\<close>

datatype Value = Invalid | Var gotype addr

text \<open>
  \<^verbatim>\<open>reflect.ValueOf(x).Elem()\<close>: panics unless \<open>x\<close> holds a pointer; the zero Value
  for a nil pointer.
\<close>

fun ValueOf_Elem :: "any \<Rightarrow> Value outcome" where
  "ValueOf_Elem (Data (DPtr t None)) = Return Invalid"
| "ValueOf_Elem (Data (DPtr t (Some a))) = Return (Var t a)"
| "ValueOf_Elem v = Panic ElemOfNonPointer"

text \<open>
  \<^verbatim>\<open>dst.Set(src)\<close>: reflect checks the destination first (it must not be the zero
  Value), then the source, then that the source's type is assignable to the
  destination's (for the types of this model: identical); then it copies the variable.
\<close>

fun Set_value :: "Value \<Rightarrow> Value \<Rightarrow> memory \<Rightarrow> memory outcome" where
  "Set_value Invalid src m = Panic ZeroValueSet"
| "Set_value (Var t a) Invalid m = Panic ZeroValueSet"
| "Set_value (Var t a) (Var t' b) m =
     (if t' \<noteq> t then Panic NotAssignable
      else Return (m\<lparr>cells := (cells m)(a := cells m b)\<rparr>))"

definition GetValue ::
  "Container \<Rightarrow> any \<Rightarrow> world \<Rightarrow> error option outcome \<times> Container \<times> world" where
  "GetValue c out w =
     (case Get c out w of
        (Panic p, c', w') \<Rightarrow> (Panic p, c', w')
      | (Return (service, Some err), c', w') \<Rightarrow> (Return (Some err), c', w')
      | (Return (service, None), c', w') \<Rightarrow>
          (case ValueOf_Elem service of
             Panic p \<Rightarrow> (Panic p, c', w')
           | Return servicePtr \<Rightarrow>
               (case ValueOf_Elem out of
                  Panic p \<Rightarrow> (Panic p, c', w')
                | Return setOutValue \<Rightarrow>
                    (case Set_value setOutValue servicePtr (mem w') of
                       Panic p \<Rightarrow> (Panic p, c', w')
                     | Return m' \<Rightarrow> (Return None, c', w'\<lparr>mem := m'\<rparr>)))))"

section \<open>The generic accessors\<close>

text \<open>
  The type assertion \<^verbatim>\<open>v.(*T)\<close>: it succeeds iff \<open>v\<close> holds a pointer whose
  dynamic type is exactly \<^verbatim>\<open>*T\<close>, and yields that pointer.
\<close>

fun assert_ptr :: "gotype \<Rightarrow> any \<Rightarrow> addr option option" where
  "assert_ptr T (Data (DPtr t p)) = (if t = T then Some p else None)"
| "assert_ptr T v = None"

text \<open>
  \<^verbatim>\<open>func Get[T any](c *Container) (*T, error)\<close>, the type parameter as an argument.
  \<^verbatim>\<open>var out T\<close> is a fresh variable; \<open>Get\<close> reads the type of \<^verbatim>\<open>&out\<close> only, and
  the variable is dead when the function returns, so the pointer is to the next free
  address and the allocation is not recorded in the memory.
\<close>

definition GetT ::
  "gotype \<Rightarrow> Container \<Rightarrow> world \<Rightarrow> (addr option \<times> error option) outcome \<times> Container \<times> world" where
  "GetT T c w =
     (let out = Data (DPtr T (Some (next_addr (mem w)))) in
      case Get c out w of
        (Panic p, c', w') \<Rightarrow> (Panic p, c', w')
      | (Return (v, Some err), c', w') \<Rightarrow> (Return (None, Some err), c', w')
      | (Return (v, None), c', w') \<Rightarrow>
          (case assert_ptr T v of
             None \<Rightarrow> (Return (None, Some ErrOutputMustBeAPointer), c', w')
           | Some p \<Rightarrow> (Return (p, None), c', w')))"


text \<open>\<^verbatim>\<open>func MustGet[T any](c *Container) *T\<close>.\<close>

definition MustGet ::
  "gotype \<Rightarrow> Container \<Rightarrow> world \<Rightarrow> addr option outcome \<times> Container \<times> world" where
  "MustGet T c w =
     (case GetT T c w of
        (Panic p, c', w') \<Rightarrow> (Panic p, c', w')
      | (Return (v, Some err), c', w') \<Rightarrow> (Panic (PanicError err), c', w')
      | (Return (v, None), c', w') \<Rightarrow> (Return v, c', w'))"

section \<open>Sequential executions\<close>





text \<open>
  The containers a program can hold: the new one, and what any call leaves behind
  (whatever it returned, and also when it panicked).
\<close>

inductive reachable :: "Container \<Rightarrow> bool" where
  reach_New: "reachable New"
| reach_Register: "reachable c \<Longrightarrow> reachable (snd (Register c service))"
| reach_RegisterFactory: "reachable c \<Longrightarrow> reachable (snd (RegisterFactory c factory))"
| reach_Get: "reachable c \<Longrightarrow> reachable (fst (snd (Get c out w)))"
| reach_GetValue: "reachable c \<Longrightarrow> reachable (fst (snd (GetValue c out w)))"
| reach_GetT: "reachable c \<Longrightarrow> reachable (fst (snd (GetT T c w)))"
| reach_MustGet: "reachable c \<Longrightarrow> reachable (fst (snd (MustGet T c w)))"

text \<open>
  The invariant of the two mappings: an instance has the dynamic type it is stored
  under, and a stored factory returns values of the type it is stored under.
\<close>

definition typed :: "Container \<Rightarrow> bool" where
  "typed c \<longleftrightarrow>
     (\<forall>k v. providers c k = Some v \<longrightarrow> TypeOf v = Some k)
   \<and> (\<forall>k g m v m'. factories c k = Some g \<longrightarrow> g m = (Return v, m') \<longrightarrow> TypeOf v = Some k)"


text \<open>
  What the caller's code does with pointers: \<^verbatim>\<open>*p\<close> reads the variable behind a
  pointer, \<^verbatim>\<open>*p = v\<close> writes it.
\<close>

fun deref :: "any \<Rightarrow> memory \<Rightarrow> data option" where
  "deref (Data (DPtr t (Some a))) m = cells m a"
| "deref v m = None"

definition assign :: "addr \<Rightarrow> data \<Rightarrow> memory \<Rightarrow> memory" where
  "assign a v m = m\<lparr>cells := (cells m)(a \<mapsto> v)\<rparr>"

section \<open>The values of the package's tests\<close>

text \<open>
  \<^verbatim>\<open>TestService{Name: "test"}\<close> and \<^verbatim>\<open>AnotherService\<close> of the test file; a memory
  that holds one TestService at address 0; the pointer to it; and the factory
  \<^verbatim>\<open>func() *TestService { return &TestService{Name: "test"} }\<close>, which allocates a
  new variable on every call.
\<close>

definition TestService :: gotype where
  "TestService = TStruct ''TestService''"

definition AnotherService :: gotype where
  "AnotherService = TStruct ''AnotherService''"

definition test_value :: data where
  "test_value = DStruct ''TestService'' [(''Name'', DString ''test'')]"

definition m0 :: memory where
  "m0 = \<lparr>cells = [0 \<mapsto> test_value], next_addr = 1\<rparr>"

definition w0 :: world where
  "w0 = \<lparr>mem = m0, calls = (\<lambda>k. 0)\<rparr>"

definition service0 :: any where
  "service0 = Data (DPtr TestService (Some 0))"

definition new_TestService :: "memory \<Rightarrow> addr option outcome \<times> memory" where
  "new_TestService m =
     (Return (Some (next_addr m)),
      m\<lparr>cells := (cells m)(next_addr m \<mapsto> test_value), next_addr := Suc (next_addr m)\<rparr>)"

definition factory0 :: any where
  "factory0 = Fn [] [TPtr TestService] new_TestService"

text \<open>
  For GetValue: a memory with a second, empty TestService at address 1 (the caller's
  \<^verbatim>\<open>var result TestService\<close>), a value to overwrite a variable with, and the
  container that holds the pointer to address 0 as its TestService instance.
\<close>

definition empty_value :: data where
  "empty_value = DStruct ''TestService'' [(''Name'', DString '''')]"

definition changed_value :: data where
  "changed_value = DStruct ''TestService'' [(''Name'', DString ''changed'')]"

definition m1 :: memory where
  "m1 = \<lparr>cells = [0 \<mapsto> test_value, 1 \<mapsto> empty_value], next_addr = 2\<rparr>"

definition w1 :: world where
  "w1 = \<lparr>mem = m1, calls = (\<lambda>k. 0)\<rparr>"

definition c1 :: Container where
  "c1 = \<lparr>factories = Map.empty, providers = [TPtr TestService \<mapsto> service0]\<rparr>"

text \<open>
  For the executions: a nil TestService pointer to resolve with, the container that holds
  only the factory, and the container and world after the factory has run once (its
  product is the pointer to address 1).
\<close>

definition out0 :: any where
  "out0 = Data (DPtr TestService None)"

definition made1 :: any where
  "made1 = Data (DPtr TestService (Some 1))"

definition cf :: Container where
  "cf = \<lparr>factories = [TPtr TestService \<mapsto> wrapper factory0 (TPtr TestService)],
         providers = Map.empty\<rparr>"

definition cf1 :: Container where
  "cf1 = \<lparr>factories = [TPtr TestService \<mapsto> wrapper factory0 (TPtr TestService)],
          providers = [TPtr TestService \<mapsto> made1]\<rparr>"

definition wf1 :: world where
  "wf1 = \<lparr>mem = \<lparr>cells = [0 \<mapsto> test_value, 1 \<mapsto> test_value], next_addr = 2\<rparr>,
          calls = (\<lambda>k. 0)(TPtr TestService := 1)\<rparr>"



section \<open>Get under the read lock\<close>

text \<open>
  Get takes \<^verbatim>\<open>c.mu.RLock()\<close>, which any number of goroutines hold at once, so two
  calls of Get can be inside the function together. Between its read of the instance
  mapping (with the factory call that follows a miss) and its write-back
  \<^verbatim>\<open>c.providers[typeof] = service\<close> another call can run. \<open>Get_lookup\<close> is Get
  up to the write-back: it finishes with a result, or it holds a value to write.
  \<open>Get_write\<close> is the rest.
\<close>

datatype pending = Done "(any \<times> error option) outcome" | Write gotype any

definition Get_lookup :: "Container \<Rightarrow> any \<Rightarrow> world \<Rightarrow> pending \<times> world" where
  "Get_lookup c out w =
     (case TypeOf out of
        None \<Rightarrow> (Done (Panic NilTypeKind), w)
      | Some typeof \<Rightarrow>
          if Kind typeof \<noteq> Ptr then (Done (Return (Nil, Some ErrOutputMustBeAPointer)), w)
          else
            (case providers c typeof of
               Some service \<Rightarrow> (Done (Return (service, None)), w)
             | None \<Rightarrow>
                 (case factories c typeof of
                    None \<Rightarrow> (Done (Return (Nil, Some ErrServiceNotFound)), w)
                  | Some factory \<Rightarrow>
                      (case factory (mem w) of
                         (Panic p, m') \<Rightarrow>
                           (Done (Panic p),
                            \<lparr>mem = m', calls = (calls w)(typeof := Suc (calls w typeof))\<rparr>)
                       | (Return service, m') \<Rightarrow>
                           (Write typeof service,
                            \<lparr>mem = m', calls = (calls w)(typeof := Suc (calls w typeof))\<rparr>)))))"

fun Get_write :: "Container \<Rightarrow> pending \<Rightarrow> (any \<times> error option) outcome \<times> Container" where
  "Get_write c (Done r) = (r, c)"
| "Get_write c (Write typeof service) =
     (Return (service, None), c\<lparr>providers := (providers c)(typeof \<mapsto> service)\<rparr>)"

text \<open>
  Two goroutines \<open>A\<close> and \<open>B\<close>, each making one call of Get on the same container.
  A goroutine has not entered Get yet, or it stands before the write-back, or it has
  returned. A schedule names the goroutine that takes the next step; a goroutine that
  has returned takes no further step.
\<close>

datatype goroutine = A | B

datatype progress =
    Ready any
  | Before_write pending
  | Returned "(any \<times> error option) outcome"

record system =
  shared :: Container
  env :: world
  at_A :: progress
  at_B :: progress

fun advance :: "progress \<Rightarrow> Container \<Rightarrow> world \<Rightarrow> progress \<times> Container \<times> world" where
  "advance (Ready out) c w = (case Get_lookup c out w of (p, w') \<Rightarrow> (Before_write p, c, w'))"
| "advance (Before_write p) c w = (case Get_write c p of (r, c') \<Rightarrow> (Returned r, c', w))"
| "advance (Returned r) c w = (Returned r, c, w)"

fun sched_step :: "goroutine \<Rightarrow> system \<Rightarrow> system" where
  "sched_step A s =
     (case advance (at_A s) (shared s) (env s) of
        (p, c, w) \<Rightarrow> s\<lparr>shared := c, env := w, at_A := p\<rparr>)"
| "sched_step B s =
     (case advance (at_B s) (shared s) (env s) of
        (p, c, w) \<Rightarrow> s\<lparr>shared := c, env := w, at_B := p\<rparr>)"

fun run_schedule :: "goroutine list \<Rightarrow> system \<Rightarrow> system" where
  "run_schedule [] s = s"
| "run_schedule (g # gs) s = run_schedule gs (sched_step g s)"

text \<open>
  Both goroutines about to resolve TestService on the container that holds only its
  factory, and the instance a second run of the factory makes.
\<close>

definition racing :: system where
  "racing = \<lparr>shared = cf, env = w0, at_A = Ready out0, at_B = Ready out0\<rparr>"

definition made2 :: any where
  "made2 = Data (DPtr TestService (Some 2))"

section \<open>Facts about reflection\<close>

lemma Kind_Ptr_iff: "Kind t = Ptr \<longleftrightarrow> (\<exists>t'. t = TPtr t')"
  by (cases t) simp_all

lemma Kind_Func_iff: "Kind t = Func \<longleftrightarrow> (\<exists>ins outs. t = TFunc ins outs)"
  by (cases t) simp_all

lemma TypeOf_None_iff: "TypeOf x = None \<longleftrightarrow> x = Nil"
  by (cases x) simp_all

lemma TypeOf_TPtr_iff: "TypeOf x = Some (TPtr t) \<longleftrightarrow> (\<exists>p. x = Data (DPtr t p))"
proof (cases x)
  case (Data d)
  then show ?thesis by (cases d) auto
qed simp_all

lemma TypeOf_Interface: "Kind typ = Ptr \<Longrightarrow> TypeOf (Interface typ p) = Some typ"
  by (auto simp: Interface_def Kind_Ptr_iff)

section \<open>Nil arguments\<close>

text \<open>
  C10. Passing the untyped nil to Register, RegisterFactory or Get returns no
  validation error: Register and Get panic on the method call \<^verbatim>\<open>Kind()\<close> of the nil
  \<^verbatim>\<open>reflect.Type\<close>, RegisterFactory panics on \<^verbatim>\<open>Type()\<close> of the zero
  \<^verbatim>\<open>reflect.Value\<close>; the container is left as it was. Nil is the one input the error
  values do not cover: each registration panics for nil only, and every other
  argument that is no pointer gets OutputMustBeAPointer from Register and Get.
\<close>

theorem nil_argument_panics:
  "Register c Nil = (Panic NilTypeKind, c)
   \<and> RegisterFactory c Nil = (Panic ZeroValueType, c)
   \<and> Get c Nil w = (Panic NilTypeKind, c, w)
   \<and> ((\<exists>p. fst (Register c x) = Panic p) \<longleftrightarrow> x = Nil)
   \<and> ((\<exists>p. fst (RegisterFactory c x) = Panic p) \<longleftrightarrow> x = Nil)
   \<and> (x \<noteq> Nil \<and> (\<forall>t p. x \<noteq> Data (DPtr t p)) \<longrightarrow>
        fst (Register c x) = Return (Some ErrOutputMustBeAPointer)
        \<and> Get c x w = (Return (Nil, Some ErrOutputMustBeAPointer), c, w))"
proof -
  have nil: "Register c Nil = (Panic NilTypeKind, c)"
    "RegisterFactory c Nil = (Panic ZeroValueType, c)"
    "Get c Nil w = (Panic NilTypeKind, c, w)"
    by (simp_all add: Register_def RegisterFactory_def Get_def)
  have reg: "(\<exists>p. fst (Register c x) = Panic p) \<longleftrightarrow> x = Nil"
    by (cases "TypeOf x") (auto simp: Register_def TypeOf_None_iff)
  have fac: "(\<exists>p. fst (RegisterFactory c x) = Panic p) \<longleftrightarrow> x = Nil"
    by (cases "TypeOf x") (auto simp: RegisterFactory_def TypeOf_None_iff Let_def)
  have other: "fst (Register c x) = Return (Some ErrOutputMustBeAPointer)
      \<and> Get c x w = (Return (Nil, Some ErrOutputMustBeAPointer), c, w)"
    if nn: "x \<noteq> Nil" and np: "\<forall>t p. x \<noteq> Data (DPtr t p)"
  proof -
    obtain k where k: "TypeOf x = Some k"
      using nn by (cases "TypeOf x") (auto simp: TypeOf_None_iff)
    have "Kind k \<noteq> Ptr"
      using np k by (auto simp: Kind_Ptr_iff TypeOf_TPtr_iff)
    then show ?thesis
      using k by (simp add: Register_def Get_def)
  qed
  show ?thesis
    using nil reg fac other by blast
qed

theorem nil_argument_panics_witness:
  "DInt 5 \<noteq> DPtr TInt None
   \<and> fst (Register New (Data (DInt 5))) = Return (Some ErrOutputMustBeAPointer)
   \<and> Get New (Data (DInt 5)) w0 = (Return (Nil, Some ErrOutputMustBeAPointer), New, w0)
   \<and> Register New Nil = (Panic NilTypeKind, New)"
  using nil_argument_panics [of New w0 "Data (DInt 5)"] by simp

section \<open>Register\<close>

text \<open>
  C4. For every input value Register is to return OutputMustBeAPointer when the value is
  no pointer, and to store it otherwise; its doc comment says "It returns an error if
  the input is not a pointer". At the nil interface, which is no pointer, the code does
  neither: the check that would return the error calls \<^verbatim>\<open>Kind()\<close> on the nil
  \<^verbatim>\<open>reflect.Type\<close> and panics.
\<close>

theorem Register_at_nil:
  "TypeOf Nil = None
   \<and> fst (Register New Nil) = Panic NilTypeKind
   \<and> fst (Register New Nil) \<noteq> Return (Some ErrOutputMustBeAPointer)
   \<and> fst (Register New Nil) \<noteq> Return None"
  by (simp add: Register_def)

text \<open>
  Register at every other input value, one that has a runtime type \<open>t\<close>: when \<open>t\<close>
  is not a pointer type, Register returns OutputMustBeAPointer and leaves the container
  unchanged; otherwise it stores the value in the instance mapping under \<open>t\<close>,
  whatever was stored there before, and returns no error.
\<close>

theorem Register_typed:
  "TypeOf service = Some t \<Longrightarrow>
     (Kind t \<noteq> Ptr \<longrightarrow> Register c service = (Return (Some ErrOutputMustBeAPointer), c))
   \<and> (Kind t = Ptr \<longrightarrow>
        Register c service = (Return None, c\<lparr>providers := (providers c)(t \<mapsto> service)\<rparr>)
        \<and> providers (snd (Register c service)) t = Some service)"
  by (simp add: Register_def)

theorem Register_typed_witness:
  "Register New (Data test_value) = (Return (Some ErrOutputMustBeAPointer), New)
   \<and> fst (Register \<lparr>factories = Map.empty,
                     providers = [TPtr TestService \<mapsto> Data (DPtr TestService None)]\<rparr> service0)
       = Return None
   \<and> providers (snd (Register \<lparr>factories = Map.empty,
                     providers = [TPtr TestService \<mapsto> Data (DPtr TestService None)]\<rparr> service0))
        (TPtr TestService) = Some service0"
proof -
  have a: "TypeOf (Data test_value) = Some TestService"
    by (simp add: test_value_def TestService_def)
  have b: "TypeOf service0 = Some (TPtr TestService)"
    by (simp add: service0_def)
  show ?thesis
    using Register_typed [OF a, of New]
      Register_typed [OF b, of "\<lparr>factories = Map.empty,
                     providers = [TPtr TestService \<mapsto> Data (DPtr TestService None)]\<rparr>"]
    by (simp add: TestService_def)
qed

section \<open>RegisterFactory\<close>

text \<open>
  C3. A value that is not a function value is to get FactoryMustBeAFunction; the doc
  comment of RegisterFactory says "It returns an error if the factory is not a
  function". At the nil interface, which is no function value, the code panics instead:
  \<^verbatim>\<open>Type()\<close> is called on the zero \<^verbatim>\<open>reflect.Value\<close> before the first check.
\<close>

theorem RegisterFactory_at_nil:
  "fst (RegisterFactory New Nil) = Panic ZeroValueType
   \<and> fst (RegisterFactory New Nil) \<noteq> Return (Some ErrFactoryMustBeAFunction)"
  by (simp add: RegisterFactory_def)

text \<open>
  RegisterFactory at every other argument. It checks in this
  order and returns the first failing check's error with the container unchanged: data
  that is no function gets FactoryMustBeAFunction; a function with parameters gets
  FactoryMustTakeNoArguments (whatever it returns); a function without parameters and
  with no or several results gets FactoryMustReturnOneValue; one whose single result
  type is no pointer type gets OutputMustBeAPointer. Otherwise the wrapper is stored in
  the factory mapping under the result type, replacing what was there, and nil is
  returned; the wrapper runs the function and hands its result back with the declared
  type.
\<close>

theorem RegisterFactory_typed:
  "RegisterFactory c (Data d) = (Return (Some ErrFactoryMustBeAFunction), c)
   \<and> (ins \<noteq> [] \<longrightarrow>
        RegisterFactory c (Fn ins outs body) = (Return (Some ErrFactoryMustTakeNoArguments), c))
   \<and> (length outs \<noteq> 1 \<longrightarrow>
        RegisterFactory c (Fn [] outs body) = (Return (Some ErrFactoryMustReturnOneValue), c))
   \<and> (Kind t \<noteq> Ptr \<longrightarrow>
        RegisterFactory c (Fn [] [t] body) = (Return (Some ErrOutputMustBeAPointer), c))
   \<and> RegisterFactory c (Fn [] [TPtr t] body)
       = (Return None,
          c\<lparr>factories := (factories c)(TPtr t \<mapsto> wrapper (Fn [] [TPtr t] body) (TPtr t))\<rparr>)
   \<and> factories (snd (RegisterFactory c (Fn [] [TPtr t] body))) (TPtr t)
       = Some (wrapper (Fn [] [TPtr t] body) (TPtr t))
   \<and> wrapper (Fn [] [TPtr t] body) (TPtr t) m
       = (case body m of
            (Panic p, m') \<Rightarrow> (Panic p, m')
          | (Return r, m') \<Rightarrow> (Return (Data (DPtr t r)), m'))"
proof -
  have "Kind (type_of_data d) \<noteq> Func"
    by (cases d) simp_all
  then have data: "RegisterFactory c (Data d) = (Return (Some ErrFactoryMustBeAFunction), c)"
    by (simp add: RegisterFactory_def)
  have rest: "ins \<noteq> [] \<longrightarrow>
      RegisterFactory c (Fn ins outs body) = (Return (Some ErrFactoryMustTakeNoArguments), c)"
    "length outs \<noteq> 1 \<longrightarrow>
      RegisterFactory c (Fn [] outs body) = (Return (Some ErrFactoryMustReturnOneValue), c)"
    "Kind t \<noteq> Ptr \<longrightarrow>
      RegisterFactory c (Fn [] [t] body) = (Return (Some ErrOutputMustBeAPointer), c)"
    "RegisterFactory c (Fn [] [TPtr t] body)
       = (Return None,
          c\<lparr>factories := (factories c)(TPtr t \<mapsto> wrapper (Fn [] [TPtr t] body) (TPtr t))\<rparr>)"
    by (simp_all add: RegisterFactory_def Let_def)
  have w: "wrapper (Fn [] [TPtr t] body) (TPtr t) m
       = (case body m of
            (Panic p, m') \<Rightarrow> (Panic p, m')
          | (Return r, m') \<Rightarrow> (Return (Data (DPtr t r)), m'))"
    by (simp add: wrapper_def Interface_def split: prod.split outcome.split)
  show ?thesis
    using data rest w by simp
qed

theorem RegisterFactory_typed_witness:
  "RegisterFactory New (Fn [TString] [TPtr TestService] new_TestService)
     = (Return (Some ErrFactoryMustTakeNoArguments), New)
   \<and> RegisterFactory New (Fn [] [] new_TestService)
     = (Return (Some ErrFactoryMustReturnOneValue), New)
   \<and> RegisterFactory New (Fn [] [TestService] new_TestService)
     = (Return (Some ErrOutputMustBeAPointer), New)
   \<and> RegisterFactory New (Data (DString ''not a function''))
     = (Return (Some ErrFactoryMustBeAFunction), New)
   \<and> fst (RegisterFactory New factory0) = Return None
   \<and> wrapper factory0 (TPtr TestService) m0
     = (Return (Data (DPtr TestService (Some 1))),
        \<lparr>cells = [0 \<mapsto> test_value, 1 \<mapsto> test_value], next_addr = 2\<rparr>)"
  using RegisterFactory_typed [where c = New and d = "DString ''not a function''"
      and ins = "[TString]" and outs = "[TPtr TestService]" and body = new_TestService
      and t = TestService and m = m0]
    RegisterFactory_typed [where c = New and d = "DString ''not a function''"
      and ins = "[TString]" and outs = "[]" and body = new_TestService
      and t = TestService and m = m0]
  by (simp add: TestService_def factory0_def new_TestService_def m0_def)

section \<open>Get\<close>

text \<open>
  C1. An argument that is not pointer-shaped is to get OutputMustBeAPointer. At the nil
  interface, which is no pointer, the code panics instead: the check that would return
  the error calls \<^verbatim>\<open>Kind()\<close> on the nil \<^verbatim>\<open>reflect.Type\<close>, the same slip as in
  Register.
\<close>

theorem Get_at_nil:
  "fst (Get New Nil w0) = Panic NilTypeKind
   \<and> fst (Get New Nil w0) \<noteq> Return (Nil, Some ErrOutputMustBeAPointer)"
  by (simp add: Get_def)

text \<open>
  Get at every other argument. For every pointer argument (nil pointers included) Get resolves by the
  pointer's type: an entry of the instance mapping is returned with no error, and
  nothing changes; otherwise an entry of the factory mapping is invoked, and what it
  returns is stored in the instance mapping under the same type and returned (when the
  factory panics, Get panics and stores nothing); with neither entry Get returns
  ServiceNotFound. For every argument that has a runtime type which is no pointer type
  (every non-pointer but the nil interface) Get returns OutputMustBeAPointer whatever
  the two mappings hold.
\<close>

theorem Get_typed:
  "(providers c (TPtr t) = Some service \<longrightarrow>
      Get c (Data (DPtr t p)) w = (Return (service, None), c, w))
   \<and> (providers c (TPtr t) = None \<and> factories c (TPtr t) = Some factory
        \<and> factory (mem w) = (Return service, m') \<longrightarrow>
      Get c (Data (DPtr t p)) w
        = (Return (service, None),
           c\<lparr>providers := (providers c)(TPtr t \<mapsto> service)\<rparr>,
           \<lparr>mem = m', calls = (calls w)(TPtr t := Suc (calls w (TPtr t)))\<rparr>))
   \<and> (providers c (TPtr t) = None \<and> factories c (TPtr t) = Some factory
        \<and> factory (mem w) = (Panic e, m') \<longrightarrow>
      Get c (Data (DPtr t p)) w
        = (Panic e, c, \<lparr>mem = m', calls = (calls w)(TPtr t := Suc (calls w (TPtr t)))\<rparr>))
   \<and> (providers c (TPtr t) = None \<and> factories c (TPtr t) = None \<longrightarrow>
      Get c (Data (DPtr t p)) w = (Return (Nil, Some ErrServiceNotFound), c, w))
   \<and> (TypeOf out = Some k \<and> Kind k \<noteq> Ptr \<longrightarrow>
      Get c out w = (Return (Nil, Some ErrOutputMustBeAPointer), c, w)
      \<and> fst (Get c' out w') = Return (Nil, Some ErrOutputMustBeAPointer))"
  by (simp add: Get_def)

theorem Get_typed_witness:
  "Get \<lparr>factories = Map.empty, providers = [TPtr TestService \<mapsto> service0]\<rparr>
       (Data (DPtr TestService None)) w0
     = (Return (service0, None),
        \<lparr>factories = Map.empty, providers = [TPtr TestService \<mapsto> service0]\<rparr>, w0)
   \<and> Get \<lparr>factories = [TPtr TestService \<mapsto> wrapper factory0 (TPtr TestService)],
           providers = Map.empty\<rparr> (Data (DPtr TestService None)) w0
     = (Return (Data (DPtr TestService (Some 1)), None),
        \<lparr>factories = [TPtr TestService \<mapsto> wrapper factory0 (TPtr TestService)],
         providers = [TPtr TestService \<mapsto> Data (DPtr TestService (Some 1))]\<rparr>,
        \<lparr>mem = \<lparr>cells = [0 \<mapsto> test_value, 1 \<mapsto> test_value], next_addr = 2\<rparr>,
         calls = (\<lambda>k. 0)(TPtr TestService := 1)\<rparr>)
   \<and> fst (Get \<lparr>factories = [TPtr TestService \<mapsto> (\<lambda>m. (Panic CallerPanic, m))],
                providers = Map.empty\<rparr> (Data (DPtr TestService None)) w0)
     = Panic CallerPanic
   \<and> Get New (Data (DPtr TestService None)) w0 = (Return (Nil, Some ErrServiceNotFound), New, w0)
   \<and> Get New (Data test_value) w0 = (Return (Nil, Some ErrOutputMustBeAPointer), New, w0)"
proof -
  have run: "wrapper factory0 (TPtr TestService) (mem w0)
      = (Return (Data (DPtr TestService (Some 1))),
         \<lparr>cells = [0 \<mapsto> test_value, 1 \<mapsto> test_value], next_addr = 2\<rparr>)"
    by (simp add: wrapper_def factory0_def new_TestService_def w0_def m0_def Interface_def)
  have 1: "Get \<lparr>factories = Map.empty, providers = [TPtr TestService \<mapsto> service0]\<rparr>
       (Data (DPtr TestService None)) w0
     = (Return (service0, None),
        \<lparr>factories = Map.empty, providers = [TPtr TestService \<mapsto> service0]\<rparr>, w0)"
    using Get_typed [where c = "\<lparr>factories = Map.empty, providers = [TPtr TestService \<mapsto> service0]\<rparr>"
        and t = TestService and service = service0 and p = None and w = w0]
    by simp
  have 2: "Get \<lparr>factories = [TPtr TestService \<mapsto> wrapper factory0 (TPtr TestService)],
           providers = Map.empty\<rparr> (Data (DPtr TestService None)) w0
     = (Return (Data (DPtr TestService (Some 1)), None),
        \<lparr>factories = [TPtr TestService \<mapsto> wrapper factory0 (TPtr TestService)],
         providers = [TPtr TestService \<mapsto> Data (DPtr TestService (Some 1))]\<rparr>,
        \<lparr>mem = \<lparr>cells = [0 \<mapsto> test_value, 1 \<mapsto> test_value], next_addr = 2\<rparr>,
         calls = (\<lambda>k. 0)(TPtr TestService := 1)\<rparr>)"
    using Get_typed [where c = "\<lparr>factories = [TPtr TestService \<mapsto> wrapper factory0 (TPtr TestService)],
           providers = Map.empty\<rparr>"
        and t = TestService and p = None and w = w0
        and factory = "wrapper factory0 (TPtr TestService)"
        and service = "Data (DPtr TestService (Some 1))"
        and m' = "\<lparr>cells = [0 \<mapsto> test_value, 1 \<mapsto> test_value], next_addr = 2\<rparr>"] run
    by (simp add: w0_def)
  have 3: "fst (Get \<lparr>factories = [TPtr TestService \<mapsto> (\<lambda>m. (Panic CallerPanic, m))],
                providers = Map.empty\<rparr> (Data (DPtr TestService None)) w0)
     = Panic CallerPanic"
    using Get_typed [where c = "\<lparr>factories = [TPtr TestService \<mapsto> (\<lambda>m. (Panic CallerPanic, m))],
                providers = Map.empty\<rparr>"
        and t = TestService and p = None and w = w0
        and factory = "\<lambda>m. (Panic CallerPanic, m)" and e = CallerPanic and m' = "mem w0"]
    by simp
  have 4: "Get New (Data (DPtr TestService None)) w0
      = (Return (Nil, Some ErrServiceNotFound), New, w0)"
    using Get_typed [where c = New and t = TestService and p = None and w = w0]
    by (simp add: New_def)
  have 5: "Get New (Data test_value) w0 = (Return (Nil, Some ErrOutputMustBeAPointer), New, w0)"
    using Get_typed [where c = New and out = "Data test_value" and k = TestService and w = w0]
    by (simp add: test_value_def TestService_def)
  show ?thesis
    using 1 2 3 4 5 by simp
qed

section \<open>MustGet\<close>

text \<open>
  C7. For every type \<open>T\<close>: when \<open>GetT\<close> (the generic Get) succeeds, MustGet returns
  the same pointer and leaves the same state; when \<open>GetT\<close> returns an error, MustGet
  panics with that error and returns nothing. For a type with neither an instance nor a
  factory the error is ServiceNotFound.
\<close>

theorem MustGet_spec:
  "(GetT T c w = (Return (p, None), c', w') \<longrightarrow> MustGet T c w = (Return p, c', w'))
   \<and> (GetT T c w = (Return (p, Some err), c', w') \<longrightarrow>
        MustGet T c w = (Panic (PanicError err), c', w'))
   \<and> (providers c (TPtr T) = None \<and> factories c (TPtr T) = None \<longrightarrow>
        GetT T c w = (Return (None, Some ErrServiceNotFound), c, w)
        \<and> MustGet T c w = (Panic (PanicError ErrServiceNotFound), c, w))"
  by (simp add: MustGet_def GetT_def Get_def)

theorem MustGet_spec_witness:
  "MustGet TestService \<lparr>factories = Map.empty, providers = [TPtr TestService \<mapsto> service0]\<rparr> w0
     = (Return (Some 0), \<lparr>factories = Map.empty, providers = [TPtr TestService \<mapsto> service0]\<rparr>, w0)
   \<and> MustGet AnotherService
        \<lparr>factories = Map.empty, providers = [TPtr TestService \<mapsto> service0]\<rparr> w0
     = (Panic (PanicError ErrServiceNotFound),
        \<lparr>factories = Map.empty, providers = [TPtr TestService \<mapsto> service0]\<rparr>, w0)"
proof -
  have ok: "GetT TestService \<lparr>factories = Map.empty, providers = [TPtr TestService \<mapsto> service0]\<rparr> w0
      = (Return (Some 0, None),
         \<lparr>factories = Map.empty, providers = [TPtr TestService \<mapsto> service0]\<rparr>, w0)"
    by (simp add: GetT_def Get_def service0_def)
  have miss: "GetT AnotherService
        \<lparr>factories = Map.empty, providers = [TPtr TestService \<mapsto> service0]\<rparr> w0
      = (Return (None, Some ErrServiceNotFound),
         \<lparr>factories = Map.empty, providers = [TPtr TestService \<mapsto> service0]\<rparr>, w0)"
    by (simp add: GetT_def Get_def TestService_def AnotherService_def)
  show ?thesis
    using MustGet_spec [where T = TestService and w = w0 and p = "Some 0" and w' = w0
        and c = "\<lparr>factories = Map.empty, providers = [TPtr TestService \<mapsto> service0]\<rparr>"
        and c' = "\<lparr>factories = Map.empty, providers = [TPtr TestService \<mapsto> service0]\<rparr>"]
      MustGet_spec [where T = AnotherService and w = w0 and p = None and w' = w0
        and err = ErrServiceNotFound
        and c = "\<lparr>factories = Map.empty, providers = [TPtr TestService \<mapsto> service0]\<rparr>"
        and c' = "\<lparr>factories = Map.empty, providers = [TPtr TestService \<mapsto> service0]\<rparr>"]
      ok miss
    by simp
qed

section \<open>What a registration leaves alone\<close>

text \<open>
  C8. RegisterFactory never changes the instance mapping, whatever its argument (valid,
  invalid or nil), so a type that had no instance has none after its factory is
  registered. Register never changes the factory mapping. Register changes no instance
  slot but the one of its argument's type, and RegisterFactory changes no factory slot
  but the one of the function's result type.
\<close>

theorem registration_frame:
  "providers (snd (RegisterFactory c factory)) = providers c
   \<and> factories (snd (Register c service)) = factories c
   \<and> (TypeOf service \<noteq> Some k \<longrightarrow>
        providers (snd (Register c service)) k = providers c k)
   \<and> (TypeOf factory \<noteq> Some (TFunc [] [k]) \<longrightarrow>
        factories (snd (RegisterFactory c factory)) k = factories c k)"
proof -
  have 1: "providers (snd (RegisterFactory c factory)) = providers c"
    by (simp add: RegisterFactory_def Let_def split: option.split)
  have 2: "factories (snd (Register c service)) = factories c"
    by (simp add: Register_def split: option.split)
  have 3: "TypeOf service \<noteq> Some k \<longrightarrow> providers (snd (Register c service)) k = providers c k"
    by (auto simp: Register_def split: option.split)
  have 4: "factories (snd (RegisterFactory c factory)) k = factories c k"
    if ne: "TypeOf factory \<noteq> Some (TFunc [] [k])"
  proof (cases "TypeOf factory")
    case None
    then show ?thesis by (simp add: RegisterFactory_def)
  next
    case (Some ft)
    show ?thesis
    proof (cases ft)
      case (TFunc ins outs)
      have "outs \<noteq> [k]" if "ins = []"
        using ne Some TFunc that by simp
      then have "ins = [] \<Longrightarrow> length outs = 1 \<Longrightarrow> outs ! 0 \<noteq> k"
        by (cases outs) auto
      then show ?thesis
        using Some TFunc by (auto simp: RegisterFactory_def Let_def)
    qed (use Some in \<open>simp_all add: RegisterFactory_def\<close>)
  qed
  show ?thesis
    using 1 2 3 4 by blast
qed

theorem registration_frame_witness:
  "providers (snd (RegisterFactory New factory0)) = providers New
   \<and> factories (snd (Register New service0)) = factories New
   \<and> providers (snd (Register New service0)) (TPtr AnotherService) = None
   \<and> factories (snd (RegisterFactory New factory0)) (TPtr AnotherService) = None"
proof -
  have a: "TypeOf service0 \<noteq> Some (TPtr AnotherService)"
    by (simp add: service0_def TestService_def AnotherService_def)
  have b: "TypeOf factory0 \<noteq> Some (TFunc [] [TPtr AnotherService])"
    by (simp add: factory0_def TestService_def AnotherService_def)
  show ?thesis
    using registration_frame [of New factory0 service0 "TPtr AnotherService"] a b
    by (simp add: New_def)
qed

section \<open>Stored values have the type of their key\<close>

lemma wrapper_typed:
  assumes "Kind ty = Ptr" and "wrapper factory ty m = (Return v, m')"
  shows "TypeOf v = Some ty"
proof -
  obtain r where "v = Interface ty r"
    using assms(2) by (auto simp: wrapper_def split: prod.splits outcome.splits)
  then show ?thesis
    using assms(1) by (simp add: TypeOf_Interface)
qed

lemma GetValue_container: "fst (snd (GetValue c out w)) = fst (snd (Get c out w))"
proof -
  obtain r c' w' where g: "Get c out w = (r, c', w')"
    by (cases "Get c out w") auto
  show ?thesis
    unfolding GetValue_def g
    by (auto split: outcome.split option.split prod.split)
qed

lemma GetT_container:
  "fst (snd (GetT T c w)) = fst (snd (Get c (Data (DPtr T (Some (next_addr (mem w))))) w))"
proof -
  obtain r c' w' where g: "Get c (Data (DPtr T (Some (next_addr (mem w))))) w = (r, c', w')"
    by (cases "Get c (Data (DPtr T (Some (next_addr (mem w))))) w") auto
  show ?thesis
    unfolding GetT_def Let_def g
    by (auto split: outcome.split option.split prod.split)
qed

lemma MustGet_container: "fst (snd (MustGet T c w)) = fst (snd (GetT T c w))"
proof -
  obtain r c' w' where g: "GetT T c w = (r, c', w')"
    by (cases "GetT T c w") auto
  show ?thesis
    unfolding MustGet_def g
    by (auto split: outcome.split option.split prod.split)
qed

lemma typedI:
  assumes "\<And>k v. providers c k = Some v \<Longrightarrow> TypeOf v = Some k"
    and "\<And>k g m v m'. factories c k = Some g \<Longrightarrow> g m = (Return v, m') \<Longrightarrow> TypeOf v = Some k"
  shows "typed c"
  unfolding typed_def using assms by blast

lemma typed_providers: "typed c \<Longrightarrow> providers c k = Some v \<Longrightarrow> TypeOf v = Some k"
  unfolding typed_def by blast

lemma typed_factories:
  "typed c \<Longrightarrow> factories c k = Some g \<Longrightarrow> g m = (Return v, m') \<Longrightarrow> TypeOf v = Some k"
  unfolding typed_def by blast

lemma typed_New: "typed New"
  by (simp add: typed_def New_def)

lemma Register_cases:
  "snd (Register c service) = c
   \<or> (\<exists>k. TypeOf service = Some k
        \<and> snd (Register c service) = c\<lparr>providers := (providers c)(k \<mapsto> service)\<rparr>)"
  by (cases "TypeOf service") (simp_all add: Register_def)

lemma typed_Register:
  assumes t: "typed c"
  shows "typed (snd (Register c service))"
proof -
  consider "snd (Register c service) = c"
    | k where "TypeOf service = Some k"
      "snd (Register c service) = c\<lparr>providers := (providers c)(k \<mapsto> service)\<rparr>"
    using Register_cases [of c service] by blast
  then show ?thesis
  proof cases
    case 1
    then show ?thesis using t by simp
  next
    case 2
    show ?thesis
      unfolding 2(2)
    proof (rule typedI)
      fix k' v
      assume "providers (c\<lparr>providers := (providers c)(k \<mapsto> service)\<rparr>) k' = Some v"
      then show "TypeOf v = Some k'"
        using typed_providers [OF t, of k' v] 2(1) by (cases "k' = k") simp_all
    next
      fix k' g m v m'
      assume "factories (c\<lparr>providers := (providers c)(k \<mapsto> service)\<rparr>) k' = Some g"
        and "g m = (Return v, m')"
      then show "TypeOf v = Some k'"
        using typed_factories [OF t, of k' g m v m'] by simp
    qed
  qed
qed

lemma RegisterFactory_cases:
  "snd (RegisterFactory c factory) = c
   \<or> (\<exists>k. Kind k = Ptr
        \<and> snd (RegisterFactory c factory) = c\<lparr>factories := (factories c)(k \<mapsto> wrapper factory k)\<rparr>)"
  by (cases "TypeOf factory") (auto simp: RegisterFactory_def Let_def)

lemma typed_RegisterFactory:
  assumes t: "typed c"
  shows "typed (snd (RegisterFactory c factory))"
proof -
  consider "snd (RegisterFactory c factory) = c"
    | k where "Kind k = Ptr"
      "snd (RegisterFactory c factory) = c\<lparr>factories := (factories c)(k \<mapsto> wrapper factory k)\<rparr>"
    using RegisterFactory_cases [of c factory] by blast
  then show ?thesis
  proof cases
    case 1
    then show ?thesis using t by simp
  next
    case 2
    show ?thesis
      unfolding 2(2)
    proof (rule typedI)
      fix k' v
      assume "providers (c\<lparr>factories := (factories c)(k \<mapsto> wrapper factory k)\<rparr>) k' = Some v"
      then show "TypeOf v = Some k'"
        using typed_providers [OF t, of k' v] by simp
    next
      fix k' g m v m'
      assume a: "factories (c\<lparr>factories := (factories c)(k \<mapsto> wrapper factory k)\<rparr>) k' = Some g"
        and run: "g m = (Return v, m')"
      show "TypeOf v = Some k'"
      proof (cases "k' = k")
        case True
        then have "g = wrapper factory k" using a by simp
        then show ?thesis using wrapper_typed [OF 2(1)] run True by blast
      next
        case False
        then have "factories c k' = Some g" using a by simp
        then show ?thesis using typed_factories [OF t] run by blast
      qed
    qed
  qed
qed

lemma Get_cases:
  "fst (snd (Get c out w)) = c
   \<or> (\<exists>k g v m'. TypeOf out = Some k \<and> providers c k = None \<and> factories c k = Some g
        \<and> g (mem w) = (Return v, m')
        \<and> fst (snd (Get c out w)) = c\<lparr>providers := (providers c)(k \<mapsto> v)\<rparr>)"
proof (cases "TypeOf out")
  case None
  then show ?thesis by (simp add: Get_def)
next
  case (Some k)
  show ?thesis
  proof (cases "Kind k = Ptr \<and> providers c k = None")
    case False
    then show ?thesis using Some by (auto simp: Get_def)
  next
    case True
    show ?thesis
    proof (cases "factories c k")
      case None
      then show ?thesis using Some True by (simp add: Get_def)
    next
      case g: (Some g)
      obtain r m' where run: "g (mem w) = (r, m')"
        by (cases "g (mem w)") auto
      show ?thesis
        using Some True g run by (cases r) (simp_all add: Get_def)
    qed
  qed
qed

lemma typed_Get:
  assumes t: "typed c"
  shows "typed (fst (snd (Get c out w)))"
proof -
  consider "fst (snd (Get c out w)) = c"
    | k g v m' where "factories c k = Some g" "g (mem w) = (Return v, m')"
      "fst (snd (Get c out w)) = c\<lparr>providers := (providers c)(k \<mapsto> v)\<rparr>"
    using Get_cases [of c out w] by blast
  then show ?thesis
  proof cases
    case 1
    then show ?thesis using t by simp
  next
    case 2
    have v: "TypeOf v = Some k"
      using typed_factories [OF t 2(1) 2(2)] .
    show ?thesis
      unfolding 2(3)
    proof (rule typedI)
      fix k' v'
      assume "providers (c\<lparr>providers := (providers c)(k \<mapsto> v)\<rparr>) k' = Some v'"
      then show "TypeOf v' = Some k'"
        using typed_providers [OF t, of k' v'] v by (cases "k' = k") simp_all
    next
      fix k' g m v' m'
      assume "factories (c\<lparr>providers := (providers c)(k \<mapsto> v)\<rparr>) k' = Some g"
        and "g m = (Return v', m')"
      then show "TypeOf v' = Some k'"
        using typed_factories [OF t, of k' g m v' m'] by simp
    qed
  qed
qed

lemma reachable_typed: "reachable c \<Longrightarrow> typed c"
proof (induction rule: reachable.induct)
  case reach_New
  show ?case by (rule typed_New)
next
  case (reach_Register c service)
  then show ?case by (simp add: typed_Register)
next
  case (reach_RegisterFactory c factory)
  then show ?case by (simp add: typed_RegisterFactory)
next
  case (reach_Get c out w)
  then show ?case by (simp add: typed_Get)
next
  case (reach_GetValue c out w)
  then show ?case by (simp add: typed_Get GetValue_container)
next
  case (reach_GetT c T w)
  then show ?case by (simp add: typed_Get GetT_container)
next
  case (reach_MustGet c T w)
  then show ?case by (simp add: typed_Get GetT_container MustGet_container)
qed

lemma Get_result_typed:
  assumes r: "reachable c" and o: "TypeOf out = Some k"
    and g: "Get c out w = (Return (v, None), c', w')"
  shows "TypeOf v = Some k"
proof -
  note t = reachable_typed [OF r]
  show ?thesis
  proof (cases "providers c k")
    case (Some s)
    then have "v = s"
      using o g by (auto simp: Get_def split: if_splits)
    then show ?thesis using typed_providers [OF t Some] by simp
  next
    case None
    show ?thesis
    proof (cases "factories c k")
      case None
      then show ?thesis
        using o g \<open>providers c k = None\<close> by (auto simp: Get_def split: if_splits)
    next
      case (Some f)
      obtain res m' where run: "f (mem w) = (res, m')"
        by (cases "f (mem w)") auto
      have "res = Return v"
        using o g \<open>providers c k = None\<close> Some run
        by (cases res) (auto simp: Get_def split: if_splits)
      then show ?thesis
        using typed_factories [OF t Some] run by blast
    qed
  qed
qed

text \<open>
  C9. In every container a program can hold, each value of the instance mapping has
  the dynamic type it is stored under (it was stored by Register under its own type,
  or it is what a factory wrapper returned, which carries the function's declared
  result type). So whenever Container.Get succeeds for the key \<^verbatim>\<open>*T\<close>, the
  assertion \<^verbatim>\<open>v.(*T)\<close> of the generic Get succeeds and the generic Get returns that
  pointer: it never returns OutputMustBeAPointer.
\<close>

theorem GetT_assertion_succeeds:
  "reachable c \<Longrightarrow>
     (\<forall>k v. providers c k = Some v \<longrightarrow> TypeOf v = Some k)
   \<and> (\<forall>p v c' w'. Get c (Data (DPtr T p)) w = (Return (v, None), c', w') \<longrightarrow>
        (\<exists>q. v = Data (DPtr T q) \<and> assert_ptr T v = Some q))
   \<and> (\<forall>v c' w'. Get c (Data (DPtr T (Some (next_addr (mem w))))) w = (Return (v, None), c', w') \<longrightarrow>
        (\<exists>q. v = Data (DPtr T q) \<and> GetT T c w = (Return (q, None), c', w')))
   \<and> (\<forall>q. fst (GetT T c w) \<noteq> Return (q, Some ErrOutputMustBeAPointer))"
proof -
  assume r: "reachable c"
  have a: "\<exists>q. v = Data (DPtr T q) \<and> assert_ptr T v = Some q"
    if "Get c (Data (DPtr T p)) w = (Return (v, None), c', w')" for p v c' w'
  proof -
    have "TypeOf v = Some (TPtr T)"
      using Get_result_typed [OF r _ that] by simp
    then show ?thesis
      by (auto simp: TypeOf_TPtr_iff)
  qed
  have b: "\<exists>q. v = Data (DPtr T q) \<and> GetT T c w = (Return (q, None), c', w')"
    if g: "Get c (Data (DPtr T (Some (next_addr (mem w))))) w = (Return (v, None), c', w')"
    for v c' w'
    using a [OF g] g by (auto simp: GetT_def)
  have d: "fst (GetT T c w) \<noteq> Return (q, Some ErrOutputMustBeAPointer)" for q
  proof (cases "Get c (Data (DPtr T (Some (next_addr (mem w))))) w")
    case (fields res c' w')
    show ?thesis
    proof (cases res)
      case (Panic e)
      then show ?thesis using fields by (simp add: GetT_def)
    next
      case (Return ve)
      obtain v e where ve: "ve = (v, e)" by (cases ve) auto
      show ?thesis
      proof (cases e)
        case None
        then show ?thesis
          using b [of v c' w'] fields Return ve by auto
      next
        case (Some err)
        then have "err = ErrServiceNotFound"
          using fields Return ve
          by (auto simp: Get_def split: option.splits prod.splits outcome.splits)
        then show ?thesis
          using fields Return ve Some by (simp add: GetT_def)
      qed
    qed
  qed
  have p: "\<forall>k v. providers c k = Some v \<longrightarrow> TypeOf v = Some k"
    using typed_providers [OF reachable_typed [OF r]] by blast
  show ?thesis
    using p a b d by blast
qed

theorem GetT_assertion_succeeds_witness:
  "reachable (snd (RegisterFactory (snd (Register New service0)) factory0))
   \<and> providers (snd (RegisterFactory (snd (Register New service0)) factory0)) (TPtr TestService)
       = Some service0
   \<and> TypeOf service0 = Some (TPtr TestService)
   \<and> fst (GetT TestService (snd (RegisterFactory (snd (Register New service0)) factory0)) w0)
       = Return (Some 0, None)"
proof -
  let ?c = "snd (RegisterFactory (snd (Register New service0)) factory0)"
  have r: "reachable ?c"
    by (intro reach_RegisterFactory reach_Register reach_New)
  have c: "?c = \<lparr>factories = [TPtr TestService \<mapsto> wrapper factory0 (TPtr TestService)],
         providers = [TPtr TestService \<mapsto> service0]\<rparr>"
    by (simp add: RegisterFactory_def Register_def New_def service0_def factory0_def Let_def)
  have g: "Get ?c (Data (DPtr TestService (Some (next_addr (mem w0))))) w0
      = (Return (service0, None), ?c, w0)"
    unfolding c by (simp add: Get_def)
  note t = GetT_assertion_succeeds [OF r, of TestService w0]
  from t g obtain q where q: "service0 = Data (DPtr TestService q)"
    and gt: "GetT TestService ?c w0 = (Return (q, None), ?c, w0)"
    by blast
  have "q = Some 0"
    using q by (simp add: service0_def)
  then have 4: "fst (GetT TestService ?c w0) = Return (Some 0, None)"
    using gt by simp
  have 2: "providers ?c (TPtr TestService) = Some service0"
    unfolding c by simp
  have 3: "TypeOf service0 = Some (TPtr TestService)"
    using t 2 by blast
  show ?thesis
    using r 2 3 4 by simp
qed

section \<open>GetValue\<close>

lemma Get_error_unchanged:
  assumes "Get c out w = (Return (s, Some err), c', w')"
  shows "c' = c \<and> w' = w"
proof (cases "TypeOf out")
  case None
  then show ?thesis using assms by (simp add: Get_def)
next
  case (Some k)
  show ?thesis
  proof (cases "Kind k = Ptr \<and> providers c k = None")
    case False
    then show ?thesis using assms Some by (auto simp: Get_def split: if_splits option.splits)
  next
    case True
    show ?thesis
    proof (cases "factories c k")
      case None
      then show ?thesis using assms Some True by (simp add: Get_def)
    next
      case g: (Some g)
      obtain r m' where run: "g (mem w) = (r, m')"
        by (cases "g (mem w)") auto
      show ?thesis
        using assms Some True g run by (cases r) (simp_all add: Get_def)
    qed
  qed
qed

text \<open>
  C6, as stated, read where the caller's pointer is the registered instance itself
  (\<^verbatim>\<open>c.Register(p); c.GetValue(p)\<close>): the resolution succeeds and GetValue returns no
  error, but the caller's slot is the instance, so a later write through the caller's
  pointer changes the instance the registry holds. And read at a nil pointer of the
  right type: the resolution succeeds, but nothing is copied; GetValue panics in
  \<^verbatim>\<open>Value.Set\<close>.
\<close>

theorem GetValue_alias_counterexample:
  "reachable (snd (Register New service0))
   \<and> Get (snd (Register New service0)) service0 w1 = (Return (service0, None), snd (Register New service0), w1)
   \<and> GetValue (snd (Register New service0)) service0 w1 = (Return None, snd (Register New service0), w1)
   \<and> deref service0 (assign 0 changed_value (mem w1)) \<noteq> deref service0 (mem w1)
   \<and> Get (snd (Register New service0)) (Data (DPtr TestService None)) w1
        = (Return (service0, None), snd (Register New service0), w1)
   \<and> fst (GetValue (snd (Register New service0)) (Data (DPtr TestService None)) w1) = Panic ZeroValueSet"
proof -
  have c: "snd (Register New service0) = c1"
    by (simp add: Register_def New_def service0_def c1_def)
  have r: "reachable (snd (Register New service0))"
    by (intro reach_Register reach_New)
  have g: "Get c1 service0 w1 = (Return (service0, None), c1, w1)"
    by (simp add: Get_def c1_def service0_def)
  have g2: "Get c1 (Data (DPtr TestService None)) w1 = (Return (service0, None), c1, w1)"
    by (simp add: Get_def c1_def)
  have m: "(mem w1)\<lparr>cells := (cells (mem w1))(0 := cells (mem w1) 0)\<rparr> = mem w1"
    by simp
  have v: "GetValue c1 service0 w1 = (Return None, c1, w1)"
    unfolding GetValue_def g by (simp add: service0_def m)
  have v2: "fst (GetValue c1 (Data (DPtr TestService None)) w1) = Panic ZeroValueSet"
    unfolding GetValue_def g2 by (simp add: service0_def)
  have d: "deref service0 (assign 0 changed_value (mem w1)) \<noteq> deref service0 (mem w1)"
    by (simp add: service0_def assign_def w1_def m1_def changed_value_def test_value_def)
  show ?thesis
    using r g g2 v v2 d unfolding c by simp
qed

text \<open>
  C6, amended. In a container a program can hold, GetValue resolves as Get does. When
  the resolution succeeds and both the caller's pointer and the resolved instance are
  non-nil, it copies the variable behind the instance into the variable behind the
  caller's pointer and returns no error: the caller's variable then equals the
  instance's contents at the time of the copy, and the instance's contents are
  unchanged. When the caller's variable is not the instance itself, a later write to
  the caller's variable leaves the instance unchanged. An error of the resolution is
  returned unchanged, with the container and the memory (so also the caller's variable)
  as they were. With a nil pointer on either side GetValue panics and copies nothing.
\<close>

theorem GetValue_copies:
  "reachable c \<Longrightarrow>
     (Get c (Data (DPtr t (Some a))) w = (Return (service, None), c', w')
        \<and> service \<noteq> Data (DPtr t None) \<longrightarrow>
      (\<exists>b m''. service = Data (DPtr t (Some b))
         \<and> m'' = (mem w')\<lparr>cells := (cells (mem w'))(a := cells (mem w') b)\<rparr>
         \<and> GetValue c (Data (DPtr t (Some a))) w = (Return None, c', w'\<lparr>mem := m''\<rparr>)
         \<and> deref (Data (DPtr t (Some a))) m'' = deref service (mem w')
         \<and> deref service m'' = deref service (mem w')
         \<and> (a \<noteq> b \<longrightarrow> (\<forall>v. deref service (assign a v m'') = deref service m''))))
   \<and> (Get c out w = (Return (s, Some err), c', w') \<longrightarrow>
        GetValue c out w = (Return (Some err), c, w) \<and> c' = c \<and> w' = w)
   \<and> (Get c (Data (DPtr t None)) w = (Return (service, None), c', w') \<longrightarrow>
        GetValue c (Data (DPtr t None)) w = (Panic ZeroValueSet, c', w'))
   \<and> (Get c (Data (DPtr t p)) w = (Return (Data (DPtr t None), None), c', w') \<longrightarrow>
        GetValue c (Data (DPtr t p)) w = (Panic ZeroValueSet, c', w'))"
proof -
  assume r: "reachable c"
  have ptr: "\<exists>q. service = Data (DPtr t q)"
    if "Get c (Data (DPtr t p)) w = (Return (service, None), c', w')" for p service
    using Get_result_typed [OF r _ that] by (simp add: TypeOf_TPtr_iff)
  have copy: "\<exists>b m''. service = Data (DPtr t (Some b))
         \<and> m'' = (mem w')\<lparr>cells := (cells (mem w'))(a := cells (mem w') b)\<rparr>
         \<and> GetValue c (Data (DPtr t (Some a))) w = (Return None, c', w'\<lparr>mem := m''\<rparr>)
         \<and> deref (Data (DPtr t (Some a))) m'' = deref service (mem w')
         \<and> deref service m'' = deref service (mem w')
         \<and> (a \<noteq> b \<longrightarrow> (\<forall>v. deref service (assign a v m'') = deref service m''))"
    if g: "Get c (Data (DPtr t (Some a))) w = (Return (service, None), c', w')"
      and nn: "service \<noteq> Data (DPtr t None)"
  proof -
    obtain q where "service = Data (DPtr t q)"
      using ptr [OF g] by blast
    then obtain b where s: "service = Data (DPtr t (Some b))"
      using nn by (cases q) auto
    have v: "GetValue c (Data (DPtr t (Some a))) w
        = (Return None, c', w'\<lparr>mem := (mem w')\<lparr>cells := (cells (mem w'))(a := cells (mem w') b)\<rparr>\<rparr>)"
      unfolding GetValue_def g by (simp add: s)
    show ?thesis
      using s v by (simp add: assign_def)
  qed
  have err: "GetValue c out w = (Return (Some err), c, w) \<and> c' = c \<and> w' = w"
    if g: "Get c out w = (Return (s, Some err), c', w')"
  proof -
    have "c' = c \<and> w' = w"
      using Get_error_unchanged [OF g] .
    then show ?thesis
      unfolding GetValue_def g by simp
  qed
  have nil_out: "GetValue c (Data (DPtr t None)) w = (Panic ZeroValueSet, c', w')"
    if g: "Get c (Data (DPtr t None)) w = (Return (service, None), c', w')"
  proof -
    obtain q where s: "service = Data (DPtr t q)"
      using ptr [OF g] by blast
    show ?thesis
      unfolding GetValue_def g by (cases q) (simp_all add: s)
  qed
  have nil_service: "GetValue c (Data (DPtr t p)) w = (Panic ZeroValueSet, c', w')"
    if g: "Get c (Data (DPtr t p)) w = (Return (Data (DPtr t None), None), c', w')"
    unfolding GetValue_def g by (cases p) simp_all
  show ?thesis
    using copy err nil_out nil_service by blast
qed

theorem GetValue_copies_witness:
  "reachable (snd (Register New service0))
   \<and> fst (GetValue (snd (Register New service0)) (Data (DPtr TestService (Some 1))) w1) = Return None
   \<and> deref (Data (DPtr TestService (Some 1)))
        (mem (snd (snd (GetValue (snd (Register New service0)) (Data (DPtr TestService (Some 1))) w1))))
       = Some test_value
   \<and> deref service0 (assign 1 changed_value
        (mem (snd (snd (GetValue (snd (Register New service0)) (Data (DPtr TestService (Some 1))) w1)))))
       = Some test_value
   \<and> GetValue (snd (Register New service0)) (Data (DPtr AnotherService (Some 1))) w1
       = (Return (Some ErrServiceNotFound), snd (Register New service0), w1)"
proof -
  let ?c = "snd (Register New service0)"
  let ?out = "Data (DPtr TestService (Some 1))"
  have c: "?c = c1"
    by (simp add: Register_def New_def service0_def c1_def)
  have r: "reachable ?c"
    by (intro reach_Register reach_New)
  have g: "Get ?c ?out w1 = (Return (service0, None), ?c, w1)"
    unfolding c by (simp add: Get_def c1_def)
  have nn: "service0 \<noteq> Data (DPtr TestService None)"
    by (simp add: service0_def)
  have e: "Get ?c (Data (DPtr AnotherService (Some 1))) w1
      = (Return (Nil, Some ErrServiceNotFound), ?c, w1)"
    unfolding c by (simp add: Get_def c1_def TestService_def AnotherService_def)
  have s0: "deref service0 (mem w1) = Some test_value"
    by (simp add: service0_def w1_def m1_def)
  note t1 = GetValue_copies [OF r, where t = TestService and a = 1 and w = w1
      and service = service0 and c' = ?c and w' = w1]
  note t2 = GetValue_copies [OF r, where out = "Data (DPtr AnotherService (Some 1))" and w = w1
      and s = Nil and err = ErrServiceNotFound and c' = ?c and w' = w1]
  from t1 g nn obtain b m'' where b: "service0 = Data (DPtr TestService (Some b))"
    and v: "GetValue ?c ?out w1 = (Return None, ?c, w1\<lparr>mem := m''\<rparr>)"
    and eq: "deref ?out m'' = deref service0 (mem w1)"
    and same: "deref service0 m'' = deref service0 (mem w1)"
    and na: "1 \<noteq> b \<longrightarrow> (\<forall>v. deref service0 (assign 1 v m'') = deref service0 m'')"
    by blast
  have b0: "b = 0"
    using b by (simp add: service0_def)
  have 1: "fst (GetValue ?c ?out w1) = Return None"
    using v by simp
  have mm: "mem (snd (snd (GetValue ?c ?out w1))) = m''"
    using v by simp
  have 2: "deref ?out (mem (snd (snd (GetValue ?c ?out w1)))) = Some test_value"
    unfolding mm using eq s0 by simp
  have "deref service0 (assign 1 changed_value m'') = deref service0 m''"
    using na b0 by simp
  then have 3: "deref service0 (assign 1 changed_value (mem (snd (snd (GetValue ?c ?out w1)))))
      = Some test_value"
    unfolding mm using same s0 by simp
  have 4: "GetValue ?c (Data (DPtr AnotherService (Some 1))) w1
       = (Return (Some ErrServiceNotFound), ?c, w1)"
    using t2 e by blast
  show ?thesis
    using r 1 2 3 4 by simp
qed

section \<open>One instance per type identity\<close>






















section \<open>Two calls of Get at once\<close>

text \<open>
  The two halves are Get: a goroutine that runs them back to back, with nothing in
  between, does exactly what Get does.
\<close>

lemma Get_split:
  "Get c out w =
     (case Get_lookup c out w of (p, w') \<Rightarrow> (case Get_write c p of (r, c') \<Rightarrow> (r, c', w')))"
proof (cases "TypeOf out")
  case None
  then show ?thesis by (simp add: Get_def Get_lookup_def)
next
  case (Some k)
  show ?thesis
  proof (cases "Kind k = Ptr \<and> providers c k = None")
    case False
    then show ?thesis using Some by (auto simp: Get_def Get_lookup_def)
  next
    case True
    show ?thesis
    proof (cases "factories c k")
      case None
      then show ?thesis using Some True by (simp add: Get_def Get_lookup_def)
    next
      case g: (Some g)
      obtain r m' where run: "g (mem w) = (r, m')"
        by (cases "g (mem w)") auto
      show ?thesis
        using Some True g run by (cases r) (simp_all add: Get_def Get_lookup_def)
    qed
  qed
qed

lemma alone_is_Get:
  "run_schedule [A, A] \<lparr>shared = c, env = w, at_A = Ready out, at_B = b\<rparr>
     = (case Get c out w of
          (r, c', w') \<Rightarrow> \<lparr>shared = c', env = w', at_A = Returned r, at_B = b\<rparr>)"
  by (simp add: Get_split split: prod.split)

text \<open>
  C5. Two goroutines resolve the same factory-backed type identity, which has no instance
  yet, on one container. The claim wants one factory invocation and one instance for
  both. Under the schedule in which both read the instance mapping before either writes
  it back (the read lock admits it: both hold \<^verbatim>\<open>RLock\<close> at once), each finds the
  slot empty and runs the factory: two invocations, and the two callers are handed
  different instances; the later write-back replaces the earlier one. Only when one
  goroutine finishes before the other starts is the factory run once.
\<close>

theorem Get_race_invokes_twice:
  "at_A (run_schedule [A, B, A, B] racing) = Returned (Return (made1, None))
   \<and> at_B (run_schedule [A, B, A, B] racing) = Returned (Return (made2, None))
   \<and> made1 \<noteq> made2
   \<and> calls (env (run_schedule [A, B, A, B] racing)) (TPtr TestService) = 2
   \<and> providers (shared (run_schedule [A, B, A, B] racing)) (TPtr TestService) = Some made2
   \<and> at_A (run_schedule [A, A, B, B] racing) = Returned (Return (made1, None))
   \<and> at_B (run_schedule [A, A, B, B] racing) = Returned (Return (made1, None))
   \<and> calls (env (run_schedule [A, A, B, B] racing)) (TPtr TestService) = 1"
proof -
  let ?k = "TPtr TestService"
  have l1: "Get_lookup cf out0 w0 = (Write ?k made1, wf1)"
    by (simp add: Get_lookup_def cf_def wf1_def out0_def made1_def w0_def m0_def wrapper_def
        factory0_def new_TestService_def Interface_def)
  have l2: "Get_lookup cf out0 wf1
      = (Write ?k made2,
         \<lparr>mem = \<lparr>cells = [0 \<mapsto> test_value, 1 \<mapsto> test_value, 2 \<mapsto> test_value], next_addr = 3\<rparr>,
          calls = (\<lambda>k. 0)(?k := Suc (Suc 0))\<rparr>)"
    by (simp add: Get_lookup_def cf_def wf1_def out0_def made2_def wrapper_def
        factory0_def new_TestService_def Interface_def)
  have l3: "Get_lookup cf1 out0 w = (Done (Return (made1, None)), w)" for w
    by (simp add: Get_lookup_def cf1_def out0_def)
  have c: "cf\<lparr>providers := (providers cf)(?k \<mapsto> made1)\<rparr> = cf1"
    by (simp add: cf_def cf1_def)
  have race: "run_schedule [A, B, A, B] racing
      = \<lparr>shared = cf1\<lparr>providers := (providers cf1)(?k \<mapsto> made2)\<rparr>,
         env = \<lparr>mem = \<lparr>cells = [0 \<mapsto> test_value, 1 \<mapsto> test_value, 2 \<mapsto> test_value],
                      next_addr = 3\<rparr>,
                calls = (\<lambda>k. 0)(?k := Suc (Suc 0))\<rparr>,
         at_A = Returned (Return (made1, None)), at_B = Returned (Return (made2, None))\<rparr>"
    by (simp add: racing_def l1 l2 c)
  have seq: "run_schedule [A, A, B, B] racing
      = \<lparr>shared = cf1, env = wf1,
         at_A = Returned (Return (made1, None)), at_B = Returned (Return (made1, None))\<rparr>"
    by (simp add: racing_def l1 l3 c)
  show ?thesis
    unfolding race seq by (simp add: made1_def made2_def wf1_def)
qed

end
